theory Spec2Isabelle
  imports Main "HOL-Library.Multiset"
begin

section \<open>Strings\<close>

text \<open>
  A Python \<open>str\<close> is a sequence of Unicode code points; \<open>len\<close> counts code points.
  A code point is modelled by its number, a string by the list of its code points.
\<close>

type_synonym pystr = "nat list"

text \<open>
  \<open>str.isspace\<close> on one code point: the code points Python classifies as whitespace
  (bidirectional type WS, B or S, or category Zs).
\<close>

definition isspace :: "nat \<Rightarrow> bool" where
  "isspace c \<longleftrightarrow>
     (0x09 \<le> c \<and> c \<le> 0x0D) \<or> (0x1C \<le> c \<and> c \<le> 0x20) \<or> c = 0x85 \<or> c = 0xA0 \<or>
     c = 0x1680 \<or> (0x2000 \<le> c \<and> c \<le> 0x200A) \<or> c = 0x2028 \<or> c = 0x2029 \<or>
     c = 0x202F \<or> c = 0x205F \<or> c = 0x3000"

text \<open>\<open>v.strip()\<close>: drop the leading and the trailing run of whitespace.\<close>

definition strip :: "pystr \<Rightarrow> pystr" where
  "strip v = rev (dropWhile isspace (rev (dropWhile isspace v)))"



section \<open>Schemas (app/schemas/chat.py)\<close>

text \<open>
  The errors one field can be rejected with: the two length constraints of
  \<open>Field(min_length, max_length)\<close>, the \<open>ValueError\<close> a field validator raises (with
  its message), and the two bounds of \<open>Query(ge, le)\<close>.
\<close>

datatype validation_error =
    string_too_short
  | string_too_long
  | value_error string
  | greater_than_equal
  | less_than_equal

text \<open>
  \<open>Field(..., min_length=lo, max_length=hi)\<close> on a \<open>str\<close> field: the constraints are part
  of the field's own schema and are checked on the value as received.
\<close>

definition Field :: "nat \<Rightarrow> nat \<Rightarrow> pystr \<Rightarrow> validation_error + pystr" where
  "Field lo hi v =
     (if length v < lo then Inl string_too_short
      else if hi < length v then Inl string_too_long
      else Inr v)"

definition trim_and_validate_title :: "pystr \<Rightarrow> validation_error + pystr" where
  "trim_and_validate_title v =
     (let trimmed = strip v in
      if trimmed = [] then Inl (value_error ''Title cannot be empty or only whitespace'')
      else if length trimmed > 200 then Inl (value_error ''Title cannot exceed 200 characters'')
      else Inr trimmed)"

definition trim_and_validate_text :: "pystr \<Rightarrow> validation_error + pystr" where
  "trim_and_validate_text v =
     (let trimmed = strip v in
      if trimmed = [] then Inl (value_error ''Text cannot be empty or only whitespace'')
      else if length trimmed > 5000 then Inl (value_error ''Text cannot exceed 5000 characters'')
      else Inr trimmed)"

record ChatCreate =
  data_title :: pystr

record MessageCreate =
  data_text :: pystr

text \<open>
  Building a schema object from the raw field: \<open>@field_validator\<close> without a mode is an
  after-validator, so the field's constraints run first, on the raw string, and the
  validator runs on a value that passed them.
\<close>

definition new_ChatCreate :: "pystr \<Rightarrow> validation_error + ChatCreate" where
  "new_ChatCreate raw =
     (case Field 1 200 raw of
        Inl e \<Rightarrow> Inl e
      | Inr v \<Rightarrow> (case trim_and_validate_title v of
                   Inl e \<Rightarrow> Inl e
                 | Inr t \<Rightarrow> Inr \<lparr>data_title = t\<rparr>))"

definition new_MessageCreate :: "pystr \<Rightarrow> validation_error + MessageCreate" where
  "new_MessageCreate raw =
     (case Field 1 5000 raw of
        Inl e \<Rightarrow> Inl e
      | Inr v \<Rightarrow> (case trim_and_validate_text v of
                   Inl e \<Rightarrow> Inl e
                 | Inr t \<Rightarrow> Inr \<lparr>data_text = t\<rparr>))"

section \<open>Tables and ORM objects (app/models/chat.py)\<close>

text \<open>
  A \<open>Message\<close> object carries the columns of its row of table \<open>messages\<close>. Timestamps
  are numbers (the later, the larger).
\<close>

record Message =
  message_id :: int
  message_chat_id :: int
  message_text :: pystr
  message_created_at :: int

text \<open>
  A \<open>Chat\<close> object carries the columns of its row of table \<open>chats\<close> and the collection
  of its relationship \<open>messages\<close>.
\<close>

record Chat =
  chat_id :: int
  chat_title :: pystr
  chat_created_at :: int
  chat_messages :: "Message list"

text \<open>
  Table \<open>chats\<close> is keyed by its primary key \<open>id\<close>, so it is a map from the id to the
  other columns. Table \<open>messages\<close> is the list of its rows in the order the store keeps
  them. Both primary keys are drawn from a sequence.
\<close>

record chat_row =
  row_title :: pystr
  row_created_at :: int

record store =
  chats :: "int \<rightharpoonup> chat_row"
  messages :: "Message list"
  chats_id_seq :: int
  messages_id_seq :: int

section \<open>Sessions (app/database.py)\<close>

text \<open>The SQL statements a session sends to the store.\<close>

datatype statement =
    SELECT_chats int
  | SELECT_messages_IN int
  | SELECT_messages_page int int int
  | SELECT_refresh
  | INSERT_chats
  | INSERT_messages
  | DELETE_chats int
  | DELETE_messages int

text \<open>
  What the unit of work of a session holds until the next flush: objects added with
  \<open>db.add\<close>, and \<open>Message\<close> objects that were taken out of the \<open>messages\<close> collection
  of their chat. The relationship is declared with \<open>cascade="all, delete-orphan"\<close>, so a
  message removed from the collection is deleted at the flush.
\<close>

datatype pending =
    New_Chat pystr
  | New_Message int pystr
  | Orphan int

text \<open>
  A session: the tables as its open transaction sees them, the time the transaction
  started (the value of \<open>now()\<close>, the server default of both \<open>created_at\<close> columns), the
  unit of work and the statements executed so far.
\<close>

record session =
  tx :: store
  started :: int
  pending :: "pending list"
  statements :: "statement list"

definition AsyncSessionLocal :: "store \<Rightarrow> int \<Rightarrow> session" where
  "AsyncSessionLocal s now = \<lparr>tx = s, started = now, pending = [], statements = []\<rparr>"

definition execute :: "statement list \<Rightarrow> session \<Rightarrow> session" where
  "execute sts db = db\<lparr>statements := statements db @ sts\<rparr>"

definition add :: "pending \<Rightarrow> session \<Rightarrow> session" where
  "add p db = db\<lparr>pending := pending db @ [p]\<rparr>"

text \<open>One entry of the unit of work, written to the tables of the transaction.\<close>

fun flush_one :: "int \<Rightarrow> pending \<Rightarrow> store \<Rightarrow> store" where
  "flush_one now (New_Chat t) s =
     s\<lparr>chats := (chats s)(chats_id_seq s \<mapsto> \<lparr>row_title = t, row_created_at = now\<rparr>),
       chats_id_seq := chats_id_seq s + 1\<rparr>"
| "flush_one now (New_Message c t) s =
     s\<lparr>messages := messages s @
         [\<lparr>message_id = messages_id_seq s, message_chat_id = c, message_text = t,
           message_created_at = now\<rparr>],
       messages_id_seq := messages_id_seq s + 1\<rparr>"
| "flush_one now (Orphan i) s =
     s\<lparr>messages := [m \<leftarrow> messages s. message_id m \<noteq> i]\<rparr>"

fun flush_statement :: "pending \<Rightarrow> statement" where
  "flush_statement (New_Chat t) = INSERT_chats"
| "flush_statement (New_Message c t) = INSERT_messages"
| "flush_statement (Orphan i) = DELETE_messages i"

definition flush :: "session \<Rightarrow> session" where
  "flush db =
     db\<lparr>tx := fold (flush_one (started db)) (pending db) (tx db),
        pending := [],
        statements := statements db @ map flush_statement (pending db)\<rparr>"

text \<open>\<open>session.commit()\<close> flushes the unit of work; the tables of the transaction then
  are the persisted ones.\<close>

definition commit :: "session \<Rightarrow> session" where
  "commit db = flush db"

text \<open>The exceptions an endpoint ends with, and the status each is answered with
  (the exception handlers of app/main.py).\<close>

datatype error =
    RequestValidationError "validation_error list"
  | ChatNotFoundException int
  | SQLAlchemyError

fun status_code :: "error \<Rightarrow> nat" where
  "status_code (RequestValidationError es) = 422"
| "status_code (ChatNotFoundException c) = 404"
| "status_code SQLAlchemyError = 500"

text \<open>
  \<open>get_db\<close> around an endpoint: a new session on the persisted store; commit when the
  endpoint returns, rollback when it raises. The result is the endpoint's outcome, the
  persisted store after the request and the statements the session executed.
\<close>

definition get_db ::
  "store \<Rightarrow> int \<Rightarrow> (session \<Rightarrow> (error + 'a) \<times> session) \<Rightarrow> (error + 'a) \<times> store \<times> statement list"
where
  "get_db s now endpoint =
     (case endpoint (AsyncSessionLocal s now) of
        (Inr r, db) \<Rightarrow> (let db' = commit db in (Inr r, tx db', statements db'))
      | (Inl e, db) \<Rightarrow> (Inl e, s, statements db))"

section \<open>Service (app/services/chat_service.py)\<close>

text \<open>\<open>ORDER BY key DESC\<close>: rows with equal keys stay in the order of the store.\<close>

definition order_by_desc :: "('a \<Rightarrow> int) \<Rightarrow> 'a list \<Rightarrow> 'a list" where
  "order_by_desc key rows = sort_key (\<lambda>r. - key r) rows"

definition ChatService_create_chat :: "session \<Rightarrow> ChatCreate \<Rightarrow> Chat \<times> session" where
  "ChatService_create_chat db chat_data =
     (let new_id = chats_id_seq (tx db);
          db1 = add (New_Chat (data_title chat_data)) db;
          db2 = flush db1;
          db3 = execute [SELECT_refresh] db2
      in (\<lparr>chat_id = new_id, chat_title = data_title chat_data,
           chat_created_at = started db, chat_messages = []\<rparr>, db3))"

text \<open>
  The relationship \<open>Chat.messages\<close> is declared \<open>lazy="selectin"\<close>: every query that
  loads a chat loads its whole collection with a second SELECT, with or without the
  option \<open>load_messages\<close> adds.
\<close>

definition get_chat_by_id :: "session \<Rightarrow> int \<Rightarrow> bool \<Rightarrow> Chat option \<times> session" where
  "get_chat_by_id db c load_messages =
     (case chats (tx db) c of
        None \<Rightarrow> (None, execute [SELECT_chats c] db)
      | Some row \<Rightarrow>
          (Some \<lparr>chat_id = c, chat_title = row_title row, chat_created_at = row_created_at row,
                 chat_messages = [m \<leftarrow> messages (tx db). message_chat_id m = c]\<rparr>,
           execute [SELECT_chats c, SELECT_messages_IN c] db))"

text \<open>
  The assignment \<open>chat.messages = new\<close>: the collection is replaced, and every message
  of the old collection that is not in the new one is an orphan of the unit of work.
\<close>

definition set_messages :: "Chat \<Rightarrow> Message list \<Rightarrow> session \<Rightarrow> Chat \<times> session" where
  "set_messages chat new db =
     (chat\<lparr>chat_messages := new\<rparr>,
      db\<lparr>pending := pending db @
          map (\<lambda>m. Orphan (message_id m))
            [m \<leftarrow> chat_messages chat. message_id m \<notin> set (map message_id new)]\<rparr>)"

text \<open>The store refuses a negative LIMIT or OFFSET.\<close>

definition ChatService_get_chat_with_messages ::
  "session \<Rightarrow> int \<Rightarrow> int \<Rightarrow> int \<Rightarrow> (error + Chat) \<times> session"
where
  "ChatService_get_chat_with_messages db c limit offset =
     (case get_chat_by_id db c False of
        (None, db1) \<Rightarrow> (Inl (ChatNotFoundException c), db1)
      | (Some chat, db1) \<Rightarrow>
          (let db2 = execute [SELECT_messages_page c limit offset] db1 in
           if limit < 0 \<or> offset < 0 then (Inl SQLAlchemyError, db2)
           else
             (let page = take (nat limit) (drop (nat offset)
                    (order_by_desc message_created_at
                       [m \<leftarrow> messages (tx db2). message_chat_id m = c]));
                  (chat', db3) = set_messages chat page db2
              in (Inr chat', db3))))"

definition ChatService_create_message ::
  "session \<Rightarrow> int \<Rightarrow> MessageCreate \<Rightarrow> (error + Message) \<times> session"
where
  "ChatService_create_message db c message_data =
     (case get_chat_by_id db c False of
        (None, db1) \<Rightarrow> (Inl (ChatNotFoundException c), db1)
      | (Some chat, db1) \<Rightarrow>
          (let new_id = messages_id_seq (tx db1);
               db2 = add (New_Message c (data_text message_data)) db1;
               db3 = flush db2;
               db4 = execute [SELECT_refresh] db3
           in (Inr \<lparr>message_id = new_id, message_chat_id = c,
                     message_text = data_text message_data,
                     message_created_at = started db\<rparr>, db4)))"

text \<open>
  \<open>DELETE FROM chats WHERE id = c\<close>; the foreign key of \<open>messages.chat_id\<close> is declared
  \<open>ondelete="CASCADE"\<close>, so the same statement removes the rows of the chat's messages.
\<close>

definition ChatService_delete_chat :: "session \<Rightarrow> int \<Rightarrow> bool \<times> session" where
  "ChatService_delete_chat db c =
     (case get_chat_by_id db c False of
        (None, db1) \<Rightarrow> (False, db1)
      | (Some chat, db1) \<Rightarrow>
          (let db2 = execute [DELETE_chats c]
                 (db1\<lparr>tx := (tx db1)\<lparr>chats := (chats (tx db1))(c := None),
                        messages := [m \<leftarrow> messages (tx db1). message_chat_id m \<noteq> c]\<rparr>\<rparr>);
               db3 = flush db2
           in (True, db3)))"

section \<open>Endpoints (app/routers/chats.py)\<close>

record ChatResponse =
  response_id :: int
  response_title :: pystr
  response_created_at :: int

text \<open>
  A request whose body or query parameters fail validation is answered before the
  endpoint function is called: its session has executed nothing.
\<close>

definition create_chat ::
  "store \<Rightarrow> int \<Rightarrow> pystr \<Rightarrow> (error + ChatResponse) \<times> store \<times> statement list"
where
  "create_chat s now raw_title =
     (case new_ChatCreate raw_title of
        Inl e \<Rightarrow> (Inl (RequestValidationError [e]), s, [])
      | Inr chat_data \<Rightarrow>
          get_db s now (\<lambda>db.
            (let (chat, db') = ChatService_create_chat db chat_data
             in (Inr \<lparr>response_id = chat_id chat, response_title = chat_title chat,
                       response_created_at = chat_created_at chat\<rparr>, db'))))"

definition create_message ::
  "store \<Rightarrow> int \<Rightarrow> int \<Rightarrow> pystr \<Rightarrow> (error + Message) \<times> store \<times> statement list"
where
  "create_message s now c raw_text =
     (case new_MessageCreate raw_text of
        Inl e \<Rightarrow> (Inl (RequestValidationError [e]), s, [])
      | Inr message_data \<Rightarrow>
          get_db s now (\<lambda>db. ChatService_create_message db c message_data))"

text \<open>\<open>Query(ge=lo)\<close> and \<open>Query(ge=lo, le=hi)\<close> on an integer parameter.\<close>

definition Query :: "int \<Rightarrow> int option \<Rightarrow> int \<Rightarrow> validation_error list" where
  "Query lo hi v =
     (if v < lo then [greater_than_equal]
      else case hi of
             None \<Rightarrow> []
           | Some h \<Rightarrow> if h < v then [less_than_equal] else [])"

definition get_chat ::
  "store \<Rightarrow> int \<Rightarrow> int \<Rightarrow> int \<Rightarrow> int \<Rightarrow> (error + Chat) \<times> store \<times> statement list"
where
  "get_chat s now c limit offset =
     (let errors = Query 1 (Some 100) limit @ Query 0 None offset in
      if errors \<noteq> [] then (Inl (RequestValidationError errors), s, [])
      else get_db s now (\<lambda>db. ChatService_get_chat_with_messages db c limit offset))"

definition delete_chat ::
  "store \<Rightarrow> int \<Rightarrow> int \<Rightarrow> (error + unit) \<times> store \<times> statement list"
where
  "delete_chat s now c =
     get_db s now (\<lambda>db.
       (let (deleted, db') = ChatService_delete_chat db c
        in if \<not> deleted then (Inl (ChatNotFoundException c), db') else (Inr (), db')))"

section \<open>A store with one chat and three messages\<close>

text \<open>Chat 1, titled "Chat", with the messages "First", "Second" and "Third", created
  in this order.\<close>

definition first_message :: Message where
  "first_message = \<lparr>message_id = 1, message_chat_id = 1,
     message_text = [0x46, 0x69, 0x72, 0x73, 0x74], message_created_at = 101\<rparr>"

definition second_message :: Message where
  "second_message = \<lparr>message_id = 2, message_chat_id = 1,
     message_text = [0x53, 0x65, 0x63, 0x6F, 0x6E, 0x64], message_created_at = 102\<rparr>"

definition third_message :: Message where
  "third_message = \<lparr>message_id = 3, message_chat_id = 1,
     message_text = [0x54, 0x68, 0x69, 0x72, 0x64], message_created_at = 103\<rparr>"

definition example_store :: store where
  "example_store =
     \<lparr>chats = [1 \<mapsto> \<lparr>row_title = [0x43, 0x68, 0x61, 0x74], row_created_at = 100\<rparr>],
      messages = [first_message, second_message, third_message],
      chats_id_seq = 2, messages_id_seq = 4\<rparr>"

section \<open>Trimming\<close>

lemma strip_length_le: "length (strip v) \<le> length v"
proof -
  have "length (strip v) \<le> length (dropWhile isspace v)"
    unfolding strip_def by (metis length_dropWhile_le length_rev)
  also have "\<dots> \<le> length v" by (rule length_dropWhile_le)
  finally show ?thesis .
qed

lemma strip_Nil [simp]: "strip [] = []"
  by (simp add: strip_def)

lemma strip_head: "strip v \<noteq> [] \<Longrightarrow> \<not> isspace (hd (strip v))"
proof -
  assume ne: "strip v \<noteq> []"
  let ?r = "dropWhile isspace (rev (dropWhile isspace v))"
  have r: "?r \<noteq> []" using ne by (simp add: strip_def)
  have d: "dropWhile isspace v \<noteq> []"
  proof
    assume "dropWhile isspace v = []"
    then have "?r = []" by (simp del: dropWhile_eq_Nil_conv)
    with r show False by contradiction
  qed
  have "hd (strip v) = last ?r" using r by (simp add: strip_def hd_rev)
  also have "\<dots> = last (rev (dropWhile isspace v))"
    using r by (metis last_appendR takeWhile_dropWhile_id)
  also have "\<dots> = hd (dropWhile isspace v)" using d by (simp add: last_rev)
  finally show ?thesis using d hd_dropWhile by metis
qed

lemma strip_last: "strip v \<noteq> [] \<Longrightarrow> \<not> isspace (last (strip v))"
proof -
  assume ne: "strip v \<noteq> []"
  let ?r = "dropWhile isspace (rev (dropWhile isspace v))"
  have r: "?r \<noteq> []" using ne by (simp add: strip_def)
  have "last (strip v) = hd ?r" using r by (simp add: strip_def last_rev)
  then show ?thesis using r hd_dropWhile by metis
qed

lemma strip_fixed: "v \<noteq> [] \<Longrightarrow> \<not> isspace (hd v) \<Longrightarrow> \<not> isspace (last v) \<Longrightarrow> strip v = v"
proof -
  assume ne: "v \<noteq> []" and h: "\<not> isspace (hd v)" and l: "\<not> isspace (last v)"
  have a: "dropWhile isspace v = v" using ne h by (cases v) simp_all
  have "rev v \<noteq> []" and "\<not> isspace (hd (rev v))" using ne l by (simp_all add: hd_rev)
  then have "dropWhile isspace (rev v) = rev v" by (cases "rev v") simp_all
  then show ?thesis by (simp add: strip_def a)
qed

lemma strip_strip: "strip (strip v) = strip v"
proof (cases "strip v = []")
  case True
  then show ?thesis by simp
next
  case False
  then show ?thesis by (intro strip_fixed strip_head strip_last)
qed

lemma strip_padded:
  assumes "\<not> isspace a" and "0 < n"
  shows "strip (replicate i 0x20 @ replicate n a @ replicate j 0x20) = replicate n a"
proof -
  have sp: "isspace 0x20" by (simp add: isspace_def)
  obtain m where n: "n = Suc m" using assms(2) by (cases n) auto
  have "dropWhile isspace (replicate i 0x20 @ replicate n a @ replicate j 0x20)
          = replicate n a @ replicate j 0x20"
    using sp assms(1) by (simp add: dropWhile_append3 n dropWhile_append)
  moreover have "dropWhile isspace (replicate j 0x20 @ replicate n a) = replicate n a"
    using sp assms(1) by (simp add: n dropWhile_append)
  ultimately show ?thesis by (simp add: strip_def)
qed



section \<open>Validation of titles and texts\<close>

lemma new_ChatCreate_accepts:
  "length raw \<le> 200 \<Longrightarrow> strip raw \<noteq> [] \<Longrightarrow> new_ChatCreate raw = Inr \<lparr>data_title = strip raw\<rparr>"
proof -
  assume le: "length raw \<le> 200" and ne: "strip raw \<noteq> []"
  have "raw \<noteq> []" using ne by auto
  then have f: "Field 1 200 raw = Inr raw"
    using le by (cases raw) (simp_all add: Field_def)
  have "length (strip raw) \<le> 200" using strip_length_le [of raw] le by simp
  then have "trim_and_validate_title raw = Inr (strip raw)"
    using ne by (simp add: trim_and_validate_title_def)
  then show ?thesis unfolding new_ChatCreate_def f by simp
qed

lemma new_MessageCreate_accepts:
  "length raw \<le> 5000 \<Longrightarrow> strip raw \<noteq> [] \<Longrightarrow>
   new_MessageCreate raw = Inr \<lparr>data_text = strip raw\<rparr>"
proof -
  assume le: "length raw \<le> 5000" and ne: "strip raw \<noteq> []"
  have "raw \<noteq> []" using ne by auto
  then have f: "Field 1 5000 raw = Inr raw"
    using le by (cases raw) (simp_all add: Field_def)
  have "length (strip raw) \<le> 5000" using strip_length_le [of raw] le by simp
  then have "trim_and_validate_text raw = Inr (strip raw)"
    using ne by (simp add: trim_and_validate_text_def)
  then show ?thesis unfolding new_MessageCreate_def f by simp
qed

lemma new_ChatCreate_Inr:
  "new_ChatCreate raw = Inr c \<Longrightarrow>
   length raw \<le> 200 \<and> strip raw \<noteq> [] \<and> c = \<lparr>data_title = strip raw\<rparr>"
  by (auto simp: new_ChatCreate_def Field_def trim_and_validate_title_def Let_def
           split: sum.splits if_splits)

lemma new_MessageCreate_Inr:
  "new_MessageCreate raw = Inr m \<Longrightarrow>
   length raw \<le> 5000 \<and> strip raw \<noteq> [] \<and> m = \<lparr>data_text = strip raw\<rparr>"
  by (auto simp: new_MessageCreate_def Field_def trim_and_validate_text_def Let_def
           split: sum.splits if_splits)

lemma new_ChatCreate_too_long:
  "200 < length raw \<Longrightarrow> new_ChatCreate raw = Inl string_too_long"
  by (auto simp: new_ChatCreate_def Field_def)

lemma new_MessageCreate_too_long:
  "5000 < length raw \<Longrightarrow> new_MessageCreate raw = Inl string_too_long"
  by (auto simp: new_MessageCreate_def Field_def)

text \<open>
  C1. Title validation is claimed to accept exactly when the trimmed string has between 1
  and 200 characters, whatever the raw length (5000 for a message text). The title made
  of two spaces, 200 letters \<open>a\<close> and two spaces has a trimmed form of exactly 200
  characters, and the text padded the same way one of exactly 5000; both are rejected,
  by the length constraint of the field, which sees the 204 (5004) raw characters before
  the validator trims them.
\<close>

theorem padded_title_at_bound_rejected:
  "strip (replicate 2 0x20 @ replicate 200 0x61 @ replicate 2 0x20) = replicate 200 0x61 \<and>
   new_ChatCreate (replicate 2 0x20 @ replicate 200 0x61 @ replicate 2 0x20)
     = Inl string_too_long \<and>
   strip (replicate 2 0x20 @ replicate 5000 0x61 @ replicate 2 0x20) = replicate 5000 0x61 \<and>
   new_MessageCreate (replicate 2 0x20 @ replicate 5000 0x61 @ replicate 2 0x20)
     = Inl string_too_long"
proof -
  have a: "\<not> isspace 0x61" by (simp add: isspace_def)
  show ?thesis
    by (simp add: strip_padded [OF a] new_ChatCreate_too_long new_MessageCreate_too_long)
qed




text \<open>
  C10. Trimming is idempotent, and the value of a successful validation validates again,
  to itself, for titles and for texts.
\<close>

theorem trim_idempotent:
  "strip (strip v) = strip v \<and>
   (new_ChatCreate raw = Inr c \<longrightarrow> new_ChatCreate (data_title c) = Inr c) \<and>
   (new_MessageCreate raw = Inr m \<longrightarrow> new_MessageCreate (data_text m) = Inr m)"
proof (intro conjI impI)
  show "strip (strip v) = strip v" by (rule strip_strip)
next
  assume "new_ChatCreate raw = Inr c"
  then have h: "length raw \<le> 200" "strip raw \<noteq> []" "c = \<lparr>data_title = strip raw\<rparr>"
    using new_ChatCreate_Inr by blast+
  have "length (strip raw) \<le> 200" using strip_length_le [of raw] h(1) by simp
  then show "new_ChatCreate (data_title c) = Inr c"
    using new_ChatCreate_accepts [of "strip raw"] h by (simp add: strip_strip)
next
  assume "new_MessageCreate raw = Inr m"
  then have h: "length raw \<le> 5000" "strip raw \<noteq> []" "m = \<lparr>data_text = strip raw\<rparr>"
    using new_MessageCreate_Inr by blast+
  have "length (strip raw) \<le> 5000" using strip_length_le [of raw] h(1) by simp
  then show "new_MessageCreate (data_text m) = Inr m"
    using new_MessageCreate_accepts [of "strip raw"] h by (simp add: strip_strip)
qed

theorem trim_idempotent_witness:
  "strip (strip [0x20, 0x48, 0x69, 0x09]) = strip [0x20, 0x48, 0x69, 0x09] \<and>
   new_ChatCreate [0x20, 0x48, 0x69, 0x09] = Inr \<lparr>data_title = [0x48, 0x69]\<rparr> \<and>
   new_ChatCreate [0x48, 0x69] = Inr \<lparr>data_title = [0x48, 0x69]\<rparr> \<and>
   new_MessageCreate [0x20, 0x48, 0x69, 0x09] = Inr \<lparr>data_text = [0x48, 0x69]\<rparr> \<and>
   new_MessageCreate [0x48, 0x69] = Inr \<lparr>data_text = [0x48, 0x69]\<rparr>"
proof -
  have s: "strip [0x20, 0x48, 0x69, 0x09] = [0x48, 0x69]"
    by (simp add: strip_def isspace_def)
  have c: "new_ChatCreate [0x20, 0x48, 0x69, 0x09] = Inr \<lparr>data_title = [0x48, 0x69]\<rparr>"
    using new_ChatCreate_accepts [of "[0x20, 0x48, 0x69, 0x09]"] by (simp add: s)
  have m: "new_MessageCreate [0x20, 0x48, 0x69, 0x09] = Inr \<lparr>data_text = [0x48, 0x69]\<rparr>"
    using new_MessageCreate_accepts [of "[0x20, 0x48, 0x69, 0x09]"] by (simp add: s)
  show ?thesis
    using trim_idempotent [of "[0x20, 0x48, 0x69, 0x09]" "[0x20, 0x48, 0x69, 0x09]"
            "\<lparr>data_title = [0x48, 0x69]\<rparr>" "\<lparr>data_text = [0x48, 0x69]\<rparr>"] c m
    by simp
qed

section \<open>Sessions and queries\<close>

lemmas example_defs = example_store_def first_message_def second_message_def third_message_def

lemma get_chat_by_id_None:
  "chats (tx db) c = None \<Longrightarrow> get_chat_by_id db c b = (None, execute [SELECT_chats c] db)"
  by (simp add: get_chat_by_id_def)

lemma get_chat_by_id_Some:
  "chats (tx db) c = Some row \<Longrightarrow>
   get_chat_by_id db c b =
     (Some \<lparr>chat_id = c, chat_title = row_title row, chat_created_at = row_created_at row,
            chat_messages = [m \<leftarrow> messages (tx db). message_chat_id m = c]\<rparr>,
      execute [SELECT_chats c, SELECT_messages_IN c] db)"
  by (simp add: get_chat_by_id_def)

lemma tx_execute [simp]: "tx (execute sts db) = tx db"
  by (simp add: execute_def)

lemma pending_execute [simp]: "pending (execute sts db) = pending db"
  by (simp add: execute_def)

lemma statements_execute [simp]: "statements (execute sts db) = statements db @ sts"
  by (simp add: execute_def)

lemma started_execute [simp]: "started (execute sts db) = started db"
  by (simp add: execute_def)





lemma get_chat_with_messages_not_found:
  assumes "chats (tx db) c = None"
  shows "ChatService_get_chat_with_messages db c limit offset =
           (Inl (ChatNotFoundException c), execute [SELECT_chats c] db)"
  using assms
  by (simp add: ChatService_get_chat_with_messages_def get_chat_by_id_None)

lemma get_chat_with_messages_Inr:
  assumes "fst (ChatService_get_chat_with_messages db c limit offset) = Inr chat"
  shows "chats (tx db) c \<noteq> None \<and> (\<forall>m \<in> set (chat_messages chat). message_chat_id m = c \<and> m \<in> set (messages (tx db)))"
proof (cases "chats (tx db) c")
  case None
  then show ?thesis using assms by (simp add: get_chat_with_messages_not_found)
next
  case (Some row)
  then show ?thesis using assms
    apply (simp add: ChatService_get_chat_with_messages_def get_chat_by_id_Some set_messages_def Let_def split: if_splits)
    apply (auto dest!: in_set_takeD in_set_dropD simp: order_by_desc_def)
    done
qed

lemma get_db_fst:
  "fst (get_db s now endpoint) = fst (endpoint (AsyncSessionLocal s now))"
  by (cases "endpoint (AsyncSessionLocal s now)")
     (auto simp: get_db_def Let_def split: sum.splits)

lemma tx_AsyncSessionLocal [simp]: "tx (AsyncSessionLocal s now) = s"
  by (simp add: AsyncSessionLocal_def)

lemma pending_AsyncSessionLocal [simp]: "pending (AsyncSessionLocal s now) = []"
  by (simp add: AsyncSessionLocal_def)

lemma statements_AsyncSessionLocal [simp]: "statements (AsyncSessionLocal s now) = []"
  by (simp add: AsyncSessionLocal_def)

lemma started_AsyncSessionLocal [simp]: "started (AsyncSessionLocal s now) = now"
  by (simp add: AsyncSessionLocal_def)


lemma delete_chat_service_found:
  "chats (tx db) c = Some row \<Longrightarrow>
   ChatService_delete_chat db c =
     (True, flush (execute [SELECT_chats c, SELECT_messages_IN c, DELETE_chats c]
        (db\<lparr>tx := (tx db)\<lparr>chats := (chats (tx db))(c := None),
               messages := [m \<leftarrow> messages (tx db). message_chat_id m \<noteq> c]\<rparr>\<rparr>)))"
  by (simp add: ChatService_delete_chat_def get_chat_by_id_Some execute_def Let_def)


lemma delete_chat_found:
  "chats s c = Some row \<Longrightarrow>
   delete_chat s now c =
     (Inr (),
      s\<lparr>chats := (chats s)(c := None),
        messages := [m \<leftarrow> messages s. message_chat_id m \<noteq> c]\<rparr>,
      [SELECT_chats c, SELECT_messages_IN c, DELETE_chats c])"
  by (simp add: delete_chat_def get_db_def delete_chat_service_found [of _ _ row]
        commit_def flush_def execute_def AsyncSessionLocal_def)

lemma get_chat_Inr:
  assumes "fst (get_chat s now c limit offset) = Inr chat"
  shows "chats s c \<noteq> None \<and>
         (\<forall>m \<in> set (chat_messages chat). message_chat_id m = c \<and> m \<in> set (messages s))"
proof -
  have "fst (ChatService_get_chat_with_messages (AsyncSessionLocal s now) c limit offset)
          = Inr chat"
    using assms by (simp add: get_chat_def Let_def get_db_fst split: if_splits)
  then show ?thesis using get_chat_with_messages_Inr [of "AsyncSessionLocal s now"] by simp
qed

lemma get_chat_not_found:
  assumes "chats s c = None" and "1 \<le> limit" and "limit \<le> 100" and "0 \<le> offset"
  shows "get_chat s now c limit offset = (Inl (ChatNotFoundException c), s, [SELECT_chats c])"
  using assms
  by (simp add: get_chat_def Query_def get_db_def get_chat_with_messages_not_found)

lemma create_message_service_not_found:
  "chats (tx db) c = None \<Longrightarrow>
   ChatService_create_message db c message_data =
     (Inl (ChatNotFoundException c), execute [SELECT_chats c] db)"
  by (simp add: ChatService_create_message_def get_chat_by_id_None)

lemma create_message_Inr:
  assumes "fst (create_message s now c raw) = Inr m"
  shows "chats s c \<noteq> None \<and> message_chat_id m = c"
proof (cases "new_MessageCreate raw")
  case (Inl e)
  then show ?thesis using assms by (simp add: create_message_def)
next
  case (Inr message_data)
  then have r: "fst (ChatService_create_message (AsyncSessionLocal s now) c message_data) = Inr m"
    using assms by (simp add: create_message_def get_db_fst)
  show ?thesis
  proof (cases "chats s c")
    case None
    then show ?thesis using r by (simp add: create_message_service_not_found)
  next
    case (Some row)
    then show ?thesis using r
      by (auto simp: ChatService_create_message_def get_chat_by_id_Some Let_def)
  qed
qed

section \<open>Reading a chat\<close>



text \<open>
  C3. A request that reads a chat is claimed to leave the persisted store unchanged.
  In the example, reading chat 1 with limit 2 and offset 0 answers with the page "Third",
  "Second"; the assignment of the page to \<open>chat.messages\<close> makes "First", which the
  relationship had loaded, an orphan, and the commit that ends the request deletes its
  row: the store holds two messages afterwards.
\<close>

theorem get_chat_deletes_messages_outside_page:
  "messages example_store = [first_message, second_message, third_message] \<and>
   get_chat example_store 200 1 2 0 =
     (Inr \<lparr>chat_id = 1, chat_title = [0x43, 0x68, 0x61, 0x74], chat_created_at = 100,
            chat_messages = [third_message, second_message]\<rparr>,
      example_store\<lparr>messages := [second_message, third_message]\<rparr>,
      [SELECT_chats 1, SELECT_messages_IN 1, SELECT_messages_page 1 2 0, DELETE_messages 1])"
  by (simp add: get_chat_def Query_def get_db_def AsyncSessionLocal_def
        ChatService_get_chat_with_messages_def get_chat_by_id_def execute_def set_messages_def
        order_by_desc_def commit_def flush_def example_defs)

section \<open>Deleting a chat\<close>

text \<open>
  C4. Deleting a chat that exists answers with success and leaves the store without the
  chat and without every message that referenced it, all other rows as they were, by
  the one DELETE statement of the request. In the store after it, reading the chat
  fails with \<open>ChatNotFoundException\<close>, and no endpoint that answers with messages
  (reading any chat, creating a message) answers with one of the deleted messages.
\<close>

theorem delete_chat_removes_chat_and_messages:
  assumes "chats s c = Some row" and "delete_chat s now c = (r, s', sts)"
  shows "r = Inr () \<and>
         s' = s\<lparr>chats := (chats s)(c := None),
                messages := [m \<leftarrow> messages s. message_chat_id m \<noteq> c]\<rparr> \<and>
         sts = [SELECT_chats c, SELECT_messages_IN c, DELETE_chats c] \<and>
         fst (ChatService_get_chat_with_messages (AsyncSessionLocal s' now') c limit offset)
           = Inl (ChatNotFoundException c) \<and>
         (1 \<le> limit \<and> limit \<le> 100 \<and> 0 \<le> offset \<longrightarrow>
            fst (get_chat s' now' c limit offset) = Inl (ChatNotFoundException c)) \<and>
         (fst (get_chat s' now' c' limit offset) = Inr chat \<longrightarrow>
            (\<forall>m \<in> set (chat_messages chat). \<not> (m \<in> set (messages s) \<and> message_chat_id m = c))) \<and>
         (fst (create_message s' now' c' raw) = Inr new \<longrightarrow>
            \<not> (new \<in> set (messages s) \<and> message_chat_id new = c))"
proof -
  have d: "r = Inr ()"
          "s' = s\<lparr>chats := (chats s)(c := None),
                 messages := [m \<leftarrow> messages s. message_chat_id m \<noteq> c]\<rparr>"
          "sts = [SELECT_chats c, SELECT_messages_IN c, DELETE_chats c]"
    using assms delete_chat_found [of s c row now] by simp_all
  have gone: "chats s' c = None" by (simp add: d(2))
  have g: "fst (ChatService_get_chat_with_messages (AsyncSessionLocal s' now') c limit offset)
             = Inl (ChatNotFoundException c)"
    using gone by (simp add: get_chat_with_messages_not_found)
  have a: "1 \<le> limit \<and> limit \<le> 100 \<and> 0 \<le> offset \<longrightarrow>
             fst (get_chat s' now' c limit offset) = Inl (ChatNotFoundException c)"
    using get_chat_not_found [OF gone] by simp
  have b: "fst (get_chat s' now' c' limit offset) = Inr chat \<longrightarrow>
             (\<forall>m \<in> set (chat_messages chat). \<not> (m \<in> set (messages s) \<and> message_chat_id m = c))"
    using get_chat_Inr [of s' now' c' limit offset chat] gone by auto
  have e: "fst (create_message s' now' c' raw) = Inr new \<longrightarrow>
             \<not> (new \<in> set (messages s) \<and> message_chat_id new = c)"
    using create_message_Inr [of s' now' c' raw new] gone by auto
  show ?thesis using d g a b e by blast
qed

text \<open>
  Deleting chat 1 of the example removes it and its three messages; reading it
  afterwards is answered with not found.
\<close>

theorem delete_chat_removes_chat_and_messages_witness:
  "delete_chat example_store 200 1 =
     (Inr (), example_store\<lparr>chats := (chats example_store)(1 := None), messages := []\<rparr>,
      [SELECT_chats 1, SELECT_messages_IN 1, DELETE_chats 1]) \<and>
   fst (get_chat (example_store\<lparr>chats := (chats example_store)(1 := None), messages := []\<rparr>)
          300 1 20 0) = Inl (ChatNotFoundException 1)"
proof -
  let ?row = "\<lparr>row_title = [0x43, 0x68, 0x61, 0x74], row_created_at = 100\<rparr>"
  let ?s' = "example_store\<lparr>chats := (chats example_store)(1 := None), messages := []\<rparr>"
  let ?sts = "[SELECT_chats 1, SELECT_messages_IN 1, DELETE_chats 1]"
  have h1: "chats example_store 1 = Some ?row" by (simp add: example_store_def)
  have f: "[m \<leftarrow> messages example_store. message_chat_id m \<noteq> 1] = []"
    by (simp add: example_store_def first_message_def second_message_def third_message_def)
  have h2: "delete_chat example_store 200 1 = (Inr (), ?s', ?sts)"
    unfolding delete_chat_found [OF h1] f by (rule refl)
  have "(1::int) \<le> 20 \<and> (20::int) \<le> 100 \<and> (0::int) \<le> 0 \<longrightarrow>
          fst (get_chat ?s' 300 1 20 0) = Inl (ChatNotFoundException 1)"
    using delete_chat_removes_chat_and_messages [OF h1 h2, of 300 20 0] by blast
  then have g: "fst (get_chat ?s' 300 1 20 0) = Inl (ChatNotFoundException 1)" by simp
  show ?thesis using h2 g by (intro conjI)
qed



section \<open>Creating a message\<close>





section \<open>Range of limit and offset\<close>

text \<open>
  C8. A request to read a chat with a limit outside 1..100 or a negative offset is
  answered with a validation error (status 422) that is not empty, for every chat id,
  also one with no chat, never with \<open>ChatNotFoundException\<close>; the store is unchanged
  and the session has executed no statement.
\<close>

theorem get_chat_rejects_out_of_range:
  assumes "limit < 1 \<or> 100 < limit \<or> offset < 0"
  shows "get_chat s now c limit offset =
           (Inl (RequestValidationError (Query 1 (Some 100) limit @ Query 0 None offset)), s, []) \<and>
         Query 1 (Some 100) limit @ Query 0 None offset \<noteq> [] \<and>
         status_code (RequestValidationError (Query 1 (Some 100) limit @ Query 0 None offset))
           = 422 \<and>
         fst (get_chat s now c limit offset) \<noteq> Inl (ChatNotFoundException c)"
proof -
  have "Query 1 (Some 100) limit @ Query 0 None offset \<noteq> []"
    using assms by (auto simp: Query_def)
  then show ?thesis by (simp add: get_chat_def Let_def)
qed

text \<open>
  Limit 0, limit 101 and offset -1, each for chat 99999, which the example does not
  have.
\<close>

theorem get_chat_rejects_out_of_range_witness:
  "chats example_store 99999 = None \<and>
   get_chat example_store 200 99999 0 0 =
     (Inl (RequestValidationError [greater_than_equal]), example_store, []) \<and>
   get_chat example_store 200 99999 101 0 =
     (Inl (RequestValidationError [less_than_equal]), example_store, []) \<and>
   get_chat example_store 200 99999 20 (- 1) =
     (Inl (RequestValidationError [greater_than_equal]), example_store, [])"
proof -
  have n: "chats example_store 99999 = None" by (simp add: example_store_def)
  show ?thesis
    using get_chat_rejects_out_of_range [of 0 0 example_store 200 99999]
          get_chat_rejects_out_of_range [of 101 0 example_store 200 99999]
          get_chat_rejects_out_of_range [of 20 "- 1" example_store 200 99999] n
    by (simp add: Query_def)
qed

end
